theory Spec2Isabelle
  imports Main "HOL-Library.Sublist"
begin

unbundle bit_operations_syntax

section \<open>hnBigTrieManager, the trie container of src/js/hnbigtrie.js\<close>

text \<open>
  The container is one byte buffer with a 32-bit little-endian view on it, and a
  few numbers kept beside it. A read of a typed array outside its bounds is
  \<open>undefined\<close> in JavaScript and a write there is dropped: reads return an
  option (\<open>None\<close> for \<open>undefined\<close>), and an index is itself an option, since it
  may have been read from outside the buffer (\<open>undefined + 1\<close> is \<open>NaN\<close>, and
  \<open>buf32[NaN]\<close> is \<open>undefined\<close> again). The buffer is never shorter than 256
  bytes, so the needle area \<open>buf[0..255]\<close> is read directly. Strings are
  hostnames: lists of 8-bit characters.
\<close>

datatype error = TypeError | RangeError | RuntimeError

record manager =
  buf :: "nat \<Rightarrow> nat"
  blen :: nat
  trie0 :: nat
  trie1 :: nat
  char0 :: nat
  char1 :: nat
  id_gen :: nat
  needle :: string
  wasmMemory :: bool
  segments :: "string \<rightharpoonup> nat"

record HNBigTrieRef =
  ref_id :: nat
  iroot :: nat

definition hnBigTrieManager :: manager where
  "hnBigTrieManager =
     \<lparr>buf = (\<lambda>_. 0), blen = 131072, trie0 = 256, trie1 = 256, char0 = 65536,
      char1 = 65536, id_gen = 0, needle = [], wasmMemory = False,
      segments = Map.empty\<rparr>"

subsection \<open>Typed-array access\<close>

definition rd8 :: "manager \<Rightarrow> nat \<Rightarrow> nat option" where
  "rd8 s a = (if a < blen s then Some (buf s a) else None)"

definition wr8 :: "manager \<Rightarrow> nat \<Rightarrow> nat \<Rightarrow> manager" where
  "wr8 s a v = (if a < blen s then s\<lparr>buf := (buf s)(a := v mod 256)\<rparr> else s)"

definition rd32 :: "manager \<Rightarrow> nat \<Rightarrow> nat option" where
  "rd32 s i =
     (if 4 * i + 4 \<le> blen s
      then Some (buf s (4 * i) + 256 * buf s (4 * i + 1) + 65536 * buf s (4 * i + 2)
                 + 16777216 * buf s (4 * i + 3))
      else None)"

definition wr32 :: "manager \<Rightarrow> nat \<Rightarrow> nat \<Rightarrow> manager" where
  "wr32 s i v =
     (if 4 * i + 4 \<le> blen s
      then s\<lparr>buf := (buf s)(4 * i := v mod 256, 4 * i + 1 := v div 256 mod 256,
                 4 * i + 2 := v div 65536 mod 256, 4 * i + 3 := v div 16777216 mod 256)\<rparr>
      else s)"

text \<open>\<open>buf32[i + k]\<close> for an index \<open>i\<close> that may be \<open>undefined\<close>.\<close>

definition buf32 :: "manager \<Rightarrow> nat option \<Rightarrow> nat \<Rightarrow> nat option" where
  "buf32 s i k = (case i of None \<Rightarrow> None | Some j \<Rightarrow> rd32 s (j + k))"

definition toU32 :: "nat option \<Rightarrow> nat" where
  "toU32 v = (case v of None \<Rightarrow> 0 | Some n \<Rightarrow> n mod 2 ^ 32)"

definition set32 :: "manager \<Rightarrow> nat option \<Rightarrow> nat \<Rightarrow> nat option \<Rightarrow> manager" where
  "set32 s i k v = (case i of None \<Rightarrow> s | Some j \<Rightarrow> wr32 s (j + k) (toU32 v))"

text \<open>\<open>(len << 24) | off\<close>, as the 32 bits a \<open>Uint32Array\<close> keeps of it.\<close>

definition shl24_or :: "nat \<Rightarrow> nat \<Rightarrow> nat" where
  "shl24_or len off = ((len * 2 ^ 24) mod 2 ^ 32) OR (off mod 2 ^ 32)"

text \<open>The writes that are inside the buffer.\<close>

definition put8 :: "manager \<Rightarrow> nat \<Rightarrow> nat \<Rightarrow> manager" where
  "put8 s a v = s\<lparr>buf := (buf s)(a := v mod 256)\<rparr>"

definition put32 :: "manager \<Rightarrow> nat \<Rightarrow> nat \<Rightarrow> manager" where
  "put32 s i v =
     s\<lparr>buf := (buf s)(4 * i := v mod 256, 4 * i + 1 := v div 256 mod 256,
                4 * i + 2 := v div 65536 mod 256, 4 * i + 3 := v div 16777216 mod 256)\<rparr>"

subsection \<open>setNeedle, labelBoundary, indexOfMismatch\<close>

fun setNeedle_loop :: "manager \<Rightarrow> string \<Rightarrow> nat \<Rightarrow> manager" where
  "setNeedle_loop s ndl i =
     (if i = 0 then s
      else setNeedle_loop (wr8 s (i - 1) (of_char (ndl ! (i - 1)))) ndl (i - 1))"

declare setNeedle_loop.simps [simp del]

definition setNeedle :: "manager \<Rightarrow> string \<Rightarrow> manager" where
  "setNeedle s ndl =
     (if ndl \<noteq> needle s
      then let i = (if length ndl > 255 then 255 else length ndl)
           in (setNeedle_loop (wr8 s 255 i) ndl i)\<lparr>needle := ndl\<rparr>
      else s)"

definition labelBoundary :: "manager \<Rightarrow> nat \<Rightarrow> bool" where
  "labelBoundary s i = (i = 0 \<or> rd8 s (i - 1) = Some 0x2E)"

function indexOfMismatch_loop :: "manager \<Rightarrow> nat \<Rightarrow> nat \<Rightarrow> nat \<Rightarrow> nat \<Rightarrow> nat" where
  "indexOfMismatch_loop s i0 i1 ineedle i =
     (if i0 + i < i1
      then (if rd8 s (i0 + i) \<noteq> rd8 s (ineedle - 1 - i) then i
            else indexOfMismatch_loop s i0 i1 ineedle (i + 1))
      else i)"
  by pat_completeness auto
termination
  by (relation "measure (\<lambda>(s, i0, i1, ineedle, i). i1 - (i0 + i))") auto

declare indexOfMismatch_loop.simps [simp del]

definition indexOfMismatch :: "manager \<Rightarrow> nat option \<Rightarrow> nat \<Rightarrow> nat" where
  "indexOfMismatch s vcell ineedle =
     (let n0 = toU32 vcell div 2 ^ 24;
          n = (if n0 > ineedle then ineedle else n0)
      in if n = 0 then 0
         else let i0 = char0 s + toU32 vcell mod 2 ^ 24
              in indexOfMismatch_loop s i0 (i0 + n) ineedle 0)"

subsection \<open>matchesJS\<close>

partial_function (option) matchesJS_loop :: "manager \<Rightarrow> nat option \<Rightarrow> nat \<Rightarrow> int option" where
  "matchesJS_loop s icell ineedle =
     (if icell = Some 0
      then Some (if labelBoundary s ineedle then int ineedle else -1)
      else let vcell3 = buf32 s icell 2;
               imismatch = indexOfMismatch s vcell3 ineedle
           in if imismatch = 0 then matchesJS_loop s (buf32 s icell 0) ineedle
              else if imismatch < toU32 vcell3 div 2 ^ 24 then Some (-1)
              else let ineedle1 = ineedle - imismatch;
                       icell1 = buf32 s icell 1
                   in if buf32 s icell1 2 = Some 0
                      then (if labelBoundary s ineedle1 then Some 1
                            else matchesJS_loop s (buf32 s icell1 1) ineedle1)
                      else matchesJS_loop s icell1 ineedle1)"

definition matchesJS :: "manager \<Rightarrow> nat \<Rightarrow> int option" where
  "matchesJS s root =
     (if buf s 255 = 0 then Some (-1) else matchesJS_loop s (Some root) (buf s 255))"

subsection \<open>create, newCell, storeSegment\<close>

definition create :: "manager \<Rightarrow> HNBigTrieRef \<times> manager" where
  "create s =
     (let r = (trie1 s mod 2 ^ 32) div 4;
          s1 = s\<lparr>trie1 := trie1 s + 12\<rparr>;
          s2 = wr32 s1 r 0;
          s3 = wr32 s2 (r + 1) 0;
          s4 = wr32 s3 (r + 2) 0
      in (\<lparr>ref_id = id_gen s, iroot = r\<rparr>, s4))"

definition newCell :: "manager \<Rightarrow> nat option \<Rightarrow> nat option \<Rightarrow> nat \<Rightarrow> nat \<times> manager" where
  "newCell s idown iright v =
     (let icell = (trie1 s mod 2 ^ 32) div 4;
          s1 = s\<lparr>trie1 := trie1 s + 12\<rparr>;
          s2 = wr32 s1 icell (toU32 idown);
          s3 = wr32 s2 (icell + 1) (toU32 iright);
          s4 = wr32 s3 (icell + 2) (v mod 2 ^ 32)
      in (icell, s4))"

fun storeSegment_loop :: "manager \<Rightarrow> nat \<Rightarrow> manager" where
  "storeSegment_loop s i =
     (if i = 0 then s
      else storeSegment_loop
             ((wr8 s (char1 s) (case rd8 s (i - 1) of None \<Rightarrow> 0 | Some b \<Rightarrow> b))
                \<lparr>char1 := char1 s + 1\<rparr>) (i - 1))"

declare storeSegment_loop.simps [simp del]

definition storeSegment :: "manager \<Rightarrow> nat \<Rightarrow> nat \<times> manager" where
  "storeSegment s len =
     (if len = 0 then (0, s)
      else let segment = take len (needle s)
           in case segments s segment of
                Some ichar \<Rightarrow> (shl24_or len ichar, s)
              | None \<Rightarrow>
                  (let ichar = char1 s - char0 s;
                       s1 = s\<lparr>segments := (segments s)(segment \<mapsto> ichar)\<rparr>
                   in (shl24_or len ichar, storeSegment_loop s1 len)))"

subsection \<open>growBuf, shrinkBuf, resizeBuf\<close>

text \<open>
  \<open>new Uint8Array(n)\<close> throws a \<open>RangeError\<close> for a length the engine refuses;
  the 32-bit \<open>& ~65535\<close> makes a negative length of any value from \<open>2^31\<close> on.
  \<open>new Uint8Array(buffer, offset, length)\<close> and \<open>set(source, offset)\<close> throw
  a \<open>RangeError\<close> when the range does not fit.
\<close>

definition resized_buf :: "manager \<Rightarrow> nat \<Rightarrow> nat \<Rightarrow> nat" where
  "resized_buf s c0 a =
     (if c0 \<le> a \<and> a < c0 + (char1 s - char0 s) then buf s (a - c0 + char0 s)
      else if a < trie1 s then buf s a else 0)"

definition resizeBuf :: "manager \<Rightarrow> nat \<Rightarrow> nat \<Rightarrow> nat \<Rightarrow> error + manager" where
  "resizeBuf s c0 c1 buf1 =
     (if buf1 = blen s then Inr s
      else if 2 ^ 31 \<le> buf1 then Inl RangeError
      else if blen s < trie1 s \<or> buf1 < trie1 s then Inl RangeError
      else if char1 s < char0 s \<or> blen s < char1 s
              \<or> buf1 < c0 + (char1 s - char0 s) then Inl RangeError
      else Inr (s\<lparr>buf := resized_buf s c0, blen := buf1, char0 := c0, char1 := c1\<rparr>))"

definition growBuf :: "manager \<Rightarrow> error + manager" where
  "growBuf s =
     (let c0 = (trie1 s + 24 + 65535) - (trie1 s + 24 + 65535) mod 65536;
          c1 = c0 + char1 s - char0 s;
          buf1 = (c1 + 256 + 65535) - (c1 + 256 + 65535) mod 65536
      in resizeBuf s c0 c1 buf1)"

definition shrinkBuf :: "manager \<Rightarrow> error + manager" where
  "shrinkBuf s =
     (let c0 = (trie1 s + 3) - (trie1 s + 3) mod 4;
          c1 = c0 + char1 s - char0 s;
          buf1 = (c1 + 3) - (c1 + 3) mod 4
      in resizeBuf s c0 c1 buf1)"

definition optimize :: "manager \<Rightarrow> error + manager" where
  "optimize s = shrinkBuf (s\<lparr>segments := Map.empty\<rparr>)"

subsection \<open>add\<close>

definition attach_down :: "manager \<Rightarrow> nat option \<Rightarrow> nat \<Rightarrow> nat \<times> manager" where
  "attach_down s icell ihnchar =
     (let (v, s1) = storeSegment s ihnchar;
          (c, s2) = newCell s1 (Some 0) (Some 0) v
      in (1, set32 s2 icell 0 (Some c)))"

definition attach_boundary_right :: "manager \<Rightarrow> nat option \<Rightarrow> nat \<Rightarrow> nat \<times> manager" where
  "attach_boundary_right s icell ihnchar =
     (let (b, s1) = newCell s (Some 0) (Some 0) 0;
          s2 = set32 s1 icell 1 (Some b);
          i = buf32 s2 icell 1;
          (v, s3) = storeSegment s2 ihnchar;
          (c, s4) = newCell s3 (Some 0) (Some 0) v
      in (1, set32 s4 i 1 (Some c)))"

definition insert_boundary :: "manager \<Rightarrow> nat option \<Rightarrow> nat \<times> manager" where
  "insert_boundary s icell =
     (let (b, s1) = newCell s (Some 0) (buf32 s icell 1) 0
      in (1, set32 s1 icell 1 (Some b)))"

definition split_cell :: "manager \<Rightarrow> nat option \<Rightarrow> nat \<Rightarrow> nat \<Rightarrow> nat \<Rightarrow> nat \<times> manager" where
  "split_cell s icell v imismatch ihnchar =
     (let lsegchar = v div 2 ^ 24;
          isegchar = v mod 2 ^ 24;
          s1 = set32 s icell 2 (Some (shl24_or imismatch isegchar));
          (t, s2) = newCell s1 (Some 0) (buf32 s1 icell 1)
                      (shl24_or (lsegchar - imismatch) (isegchar + imismatch));
          s3 = set32 s2 icell 1 (Some t)
      in if ihnchar \<noteq> 0
         then (let i = buf32 s3 icell 1;
                   (w, s4) = storeSegment s3 ihnchar;
                   (c, s5) = newCell s4 (Some 0) (Some 0) w
               in (1, set32 s5 i 0 (Some c)))
         else insert_boundary s3 icell)"

partial_function (option) add_loop :: "manager \<Rightarrow> nat option \<Rightarrow> nat \<Rightarrow> (nat \<times> manager) option" where
  "add_loop s icell ihnchar =
     (let v = buf32 s icell 2
      in if v = Some 0 then add_loop s (buf32 s icell 1) ihnchar
         else let imismatch = indexOfMismatch s v ihnchar
              in if imismatch = 0
                 then (let inext = buf32 s icell 0
                       in if inext \<noteq> Some 0 then add_loop s inext ihnchar
                          else Some (attach_down s icell ihnchar))
                 else let ihnchar1 = ihnchar - imismatch;
                          lsegchar = toU32 v div 2 ^ 24;
                          inext = buf32 s icell 1
                      in if imismatch = lsegchar
                         then (if ihnchar1 \<noteq> 0
                               then (if inext \<noteq> Some 0 then add_loop s inext ihnchar1
                                     else Some (attach_boundary_right s icell ihnchar1))
                               else if inext = Some 0 \<or> buf32 s inext 2 = Some 0
                               then Some (0, s)
                               else Some (insert_boundary s icell))
                         else Some (split_cell s icell (toU32 v) imismatch ihnchar1))"

definition add :: "manager \<Rightarrow> nat \<Rightarrow> (error + nat \<times> manager) option" where
  "add s root =
     (if buf s 255 = 0 then Some (Inr (0, s))
      else case growBuf s of
             Inl e \<Rightarrow> Some (Inl e)
           | Inr s1 \<Rightarrow>
               (if rd32 s1 (root + 2) = Some 0
                then (let s2 = wr32 s1 root 0;
                          s3 = wr32 s2 (root + 1) 0;
                          (v, s4) = storeSegment s3 (buf s 255)
                      in Some (Inr (1, wr32 s4 (root + 2) v)))
                else map_option Inr (add_loop s1 (Some root) (buf s 255))))"

subsection \<open>reset and HNBigTrieRef\<close>

text \<open>
  The file is in strict mode: \<open>this.buf.byteLength = ...\<close> assigns to an accessor
  that has no setter, which throws a \<open>TypeError\<close>.
\<close>

definition reset :: "manager \<Rightarrow> error + manager" where
  "reset s =
     (if \<not> wasmMemory s \<and> blen s > 131072 then Inl TypeError
      else Inr (s\<lparr>buf := (\<lambda>_. 0), trie0 := 256, trie1 := 256, char0 := 65536,
                   char1 := 65536, segments := Map.empty, needle := [],
                   id_gen := id_gen s + 1\<rparr>))"

definition isValid :: "manager \<Rightarrow> HNBigTrieRef \<Rightarrow> bool" where
  "isValid s r = (ref_id r = id_gen s)"

text \<open>
  \<open>HNBigTrieRef.add\<close> and \<open>HNBigTrieRef.matchesJS\<close> set the needle and call the
  container; \<open>fromIterable_loop\<close> is the loop of \<open>fromIterable\<close>.
\<close>

definition HNBigTrieRef_add :: "manager \<Rightarrow> HNBigTrieRef \<Rightarrow> string \<Rightarrow> (error + nat \<times> manager) option" where
  "HNBigTrieRef_add s r hn = add (setNeedle s hn) (iroot r)"

definition HNBigTrieRef_matchesJS :: "manager \<Rightarrow> HNBigTrieRef \<Rightarrow> string \<Rightarrow> int option" where
  "HNBigTrieRef_matchesJS s r q = matchesJS (setNeedle s q) (iroot r)"

fun fromIterable_loop :: "manager \<Rightarrow> HNBigTrieRef \<Rightarrow> string list \<Rightarrow> (error + manager) option" where
  "fromIterable_loop s r [] = Some (Inr s)"
| "fromIterable_loop s r (hn # hostnames) =
     (case HNBigTrieRef_add s r hn of
        None \<Rightarrow> None
      | Some (Inl e) \<Rightarrow> Some (Inl e)
      | Some (Inr (_, s1)) \<Rightarrow> fromIterable_loop s1 r hostnames)"

text \<open>A query against the trie made of the hostnames \<open>hs\<close>, added in this order
  to a new trie of the initial container.\<close>

definition matches_after :: "string list \<Rightarrow> string \<Rightarrow> int option" where
  "matches_after hs q =
     (case fromIterable_loop (snd (create hnBigTrieManager))
             (fst (create hnBigTrieManager)) hs of
        Some (Inr s) \<Rightarrow> HNBigTrieRef_matchesJS s (fst (create hnBigTrieManager)) q
      | _ \<Rightarrow> None)"

text \<open>\<open>fromIterable\<close>: a new trie, the hostnames, then \<open>optimize\<close>.\<close>

definition fromIterable :: "manager \<Rightarrow> string list \<Rightarrow> (error + HNBigTrieRef \<times> manager) option" where
  "fromIterable s hostnames =
     (case fromIterable_loop (snd (create s)) (fst (create s)) hostnames of
        None \<Rightarrow> None
      | Some (Inl e) \<Rightarrow> Some (Inl e)
      | Some (Inr s1) \<Rightarrow>
          (case optimize s1 of
             Inl e \<Rightarrow> Some (Inl e)
           | Inr s2 \<Rightarrow> Some (Inr (fst (create s), s2))))"

text \<open>The numbers \<open>trie1\<close>, \<open>char0\<close>, \<open>char1\<close> and \<open>buf.length\<close> of a container.\<close>

definition layout :: "manager \<Rightarrow> nat \<times> nat \<times> nat \<times> nat" where
  "layout s = (trie1 s, char0 s, char1 s, blen s)"

text \<open>The specification's relation: the stored hostname \<open>h\<close> matches the query \<open>q\<close>.\<close>

definition hostname_match :: "string \<Rightarrow> string \<Rightarrow> bool" where
  "hostname_match h q = (q = h \<or> suffix (CHR ''.'' # h) q)"

text \<open>
  The calls a user of the container makes besides \<open>reset\<close>, and a sequence of
  them. A call that throws leaves the state it had reached; a call that does not
  return ends the sequence.
\<close>

datatype call =
  Call_create | Call_setNeedle string | Call_add nat | Call_matchesJS nat | Call_optimize

fun run_call :: "manager \<Rightarrow> call \<Rightarrow> manager option" where
  "run_call s Call_create = Some (snd (create s))"
| "run_call s (Call_setNeedle ndl) = Some (setNeedle s ndl)"
| "run_call s (Call_add root) =
     (case add s root of
        None \<Rightarrow> None
      | Some (Inl e) \<Rightarrow> Some s
      | Some (Inr (_, s1)) \<Rightarrow> Some s1)"
| "run_call s (Call_matchesJS root) =
     (case matchesJS s root of None \<Rightarrow> None | Some _ \<Rightarrow> Some s)"
| "run_call s Call_optimize =
     (case optimize s of
        Inl e \<Rightarrow> Some (s\<lparr>segments := Map.empty\<rparr>)
      | Inr s1 \<Rightarrow> Some s1)"

fun run_calls :: "manager \<Rightarrow> call list \<Rightarrow> manager option" where
  "run_calls s [] = Some s"
| "run_calls s (c # cs) =
     (case run_call s c of None \<Rightarrow> None | Some s1 \<Rightarrow> run_calls s1 cs)"

text \<open>
  \<open>creates n\<close> is \<open>n\<close> calls of \<open>create\<close>. \<open>reset_attempt\<close> is the container after
  a call of \<open>reset\<close>: a \<open>reset\<close> that throws has changed nothing.
  \<open>reset_after_growth\<close> is a run of calls on the initial container: 5440 calls of
  \<open>create\<close>, the hostname \<open>a\<close> added to the last trie, then \<open>reset\<close>. It gives the
  length of the buffer before the \<open>reset\<close>, whether \<open>reset\<close> throws a \<open>TypeError\<close>,
  and whether the reference made by the first \<open>create\<close> is valid afterwards.
\<close>

primrec creates :: "nat \<Rightarrow> manager \<Rightarrow> manager" where
  "creates 0 s = s"
| "creates (Suc n) s = snd (create (creates n s))"

definition reset_attempt :: "manager \<Rightarrow> manager" where
  "reset_attempt s = (case reset s of Inl e \<Rightarrow> s | Inr s1 \<Rightarrow> s1)"

definition reset_after_growth :: "(nat \<times> bool \<times> bool) option" where
  "reset_after_growth =
     (case HNBigTrieRef_add (snd (create (creates 5439 hnBigTrieManager)))
             (fst (create (creates 5439 hnBigTrieManager))) ''a'' of
        Some (Inr (_, s)) \<Rightarrow>
          Some (blen s, reset s = Inl TypeError,
                isValid (reset_attempt s) (fst (create hnBigTrieManager)))
      | _ \<Rightarrow> None)"

text \<open>
  \<open>add_again_after_creates n\<close> is a run of calls on the initial container: a
  trie is created and the hostname \<open>a\<close> is added to it, \<open>create\<close> is called \<open>n\<close>
  more times, and \<open>a\<close> is added to the first trie again, each time as
  \<open>setNeedle(hn).add(iroot)\<close>. It gives what the two calls of \<open>add\<close> return, and
  \<open>trie1\<close> before and after the second one.
\<close>

definition add_again_after_creates :: "nat \<Rightarrow> (nat \<times> nat \<times> nat \<times> nat) option" where
  "add_again_after_creates n =
     (let r = iroot (fst (create hnBigTrieManager));
          s0 = snd (create hnBigTrieManager)
      in case add (setNeedle s0 ''a'') r of
           Some (Inr (n1, s1)) \<Rightarrow>
             (let s2 = creates n s1
              in case add (setNeedle s2 ''a'') r of
                   Some (Inr (n2, s3)) \<Rightarrow> Some (n1, n2, trie1 s2, trie1 s3)
                 | _ \<Rightarrow> None)
         | _ \<Rightarrow> None)"

section \<open>The WebAssembly matcher, wasm/hnbigtrie.wat\<close>

text \<open>
  The function \<open>matches\<close> of the module works on the linear memory, here the
  bytes \<open>buf\<close> of length \<open>blen\<close> of a container. Values of type \<open>i32\<close> are
  natural numbers below \<open>2^32\<close>; a load outside the memory traps, which the
  caller sees as a \<open>RuntimeError\<close>. The result is read as a signed number.
\<close>

definition load8_u :: "manager \<Rightarrow> nat \<Rightarrow> nat option" where
  "load8_u s a = (if a + 1 \<le> blen s then Some (buf s a) else None)"

definition load32 :: "manager \<Rightarrow> nat \<Rightarrow> nat option" where
  "load32 s a =
     (if a + 4 \<le> blen s
      then Some (buf s a + 256 * buf s (a + 1) + 65536 * buf s (a + 2)
                 + 16777216 * buf s (a + 3))
      else None)"

definition i32_add :: "nat \<Rightarrow> nat \<Rightarrow> nat" where
  "i32_add a b = (a + b) mod 2 ^ 32"

definition i32_shl :: "nat \<Rightarrow> nat \<Rightarrow> nat" where
  "i32_shl a k = (a * 2 ^ k) mod 2 ^ 32"

definition i32_signed :: "nat \<Rightarrow> int" where
  "i32_signed a = (if a < 2 ^ 31 then int a else int a - 2 ^ 32)"

text \<open>The block \<open>$foundSegment\<close>: the result is the cell and the \<open>v\<close> and \<open>i0\<close>
  of the segment found, or the value returned.\<close>

partial_function (option) findSegment ::
  "manager \<Rightarrow> nat \<Rightarrow> nat \<Rightarrow> nat \<Rightarrow> (error + int + nat \<times> nat \<times> nat) option" where
  "findSegment s char0w c icell =
     (case load32 s (icell + 8) of
        None \<Rightarrow> Some (Inl RuntimeError)
      | Some v \<Rightarrow>
          (let i0 = i32_add (v mod 2 ^ 24) char0w
           in case load8_u s i0 of
                None \<Rightarrow> Some (Inl RuntimeError)
              | Some b \<Rightarrow>
                  if b = c then Some (Inr (Inr (icell, v, i0)))
                  else (case load32 s icell of
                          None \<Rightarrow> Some (Inl RuntimeError)
                        | Some d \<Rightarrow>
                            if i32_shl d 2 = 0 then Some (Inr (Inl (- 1)))
                            else findSegment s char0w c (i32_shl d 2))))"

text \<open>The inner \<open>do ... while ( i0 < i1 )\<close>: the result is the needle offset
  reached, or the value returned.\<close>

partial_function (option) compareSegment ::
  "manager \<Rightarrow> nat \<Rightarrow> nat \<Rightarrow> nat \<Rightarrow> (error + int + nat) option" where
  "compareSegment s i1 ineedle i0 =
     (let ineedle1 = i32_add ineedle (2 ^ 32 - 1)
      in (case load8_u s ineedle1 of
            None \<Rightarrow> Some (Inl RuntimeError)
          | Some a \<Rightarrow>
              (case load8_u s i0 of
                 None \<Rightarrow> Some (Inl RuntimeError)
               | Some b \<Rightarrow>
                   if a \<noteq> b then Some (Inr (Inl (- 1)))
                   else if i32_add i0 1 < i1 then compareSegment s i1 ineedle1 (i32_add i0 1)
                   else Some (Inr (Inr ineedle1)))))"

text \<open>The test \<open>ineedle === 0 || buf[ineedle-1] === 0x2E\<close>; \<open>None\<close> is the trap.\<close>

definition labelBoundaryW :: "manager \<Rightarrow> nat \<Rightarrow> bool option" where
  "labelBoundaryW s ineedle =
     (if ineedle = 0 then Some True
      else (case load8_u s (i32_add ineedle (2 ^ 32 - 1)) of
              None \<Rightarrow> None
            | Some b \<Rightarrow> Some (b = 0x2E)))"

text \<open>The end of the function, after the block \<open>$noSegment\<close>.\<close>

definition noSegment :: "manager \<Rightarrow> nat \<Rightarrow> error + int" where
  "noSegment s ineedle =
     (case labelBoundaryW s ineedle of
        None \<Rightarrow> Inl RuntimeError
      | Some lb \<Rightarrow> if lb then Inr (i32_signed ineedle) else Inr (- 1))"

text \<open>The loop \<open>$nextSegment\<close>, from the test of \<open>ineedle\<close> on.\<close>

partial_function (option) nextSegment ::
  "manager \<Rightarrow> nat \<Rightarrow> nat \<Rightarrow> nat \<Rightarrow> (error + int) option" where
  "nextSegment s char0w icell ineedle =
     (if ineedle = 0 then Some (Inr (- 1))
      else let ineedle1 = i32_add ineedle (2 ^ 32 - 1)
           in (case load8_u s ineedle1 of
                None \<Rightarrow> Some (Inl RuntimeError)
              | Some c \<Rightarrow>
                  (case findSegment s char0w c icell of
                     None \<Rightarrow> None
                   | Some (Inl e) \<Rightarrow> Some (Inl e)
                   | Some (Inr (Inl r)) \<Rightarrow> Some (Inr r)
                   | Some (Inr (Inr (icell1, v, i0))) \<Rightarrow>
                       (case (if 1 < v div 2 ^ 24
                              then (if ineedle1 < v div 2 ^ 24 - 1 then Some (Inr (Inl (- 1)))
                                    else compareSegment s
                                           (i32_add (i32_add i0 1) (v div 2 ^ 24 - 1))
                                           ineedle1 (i32_add i0 1))
                              else Some (Inr (Inr ineedle1))) of
                          None \<Rightarrow> None
                        | Some (Inl e) \<Rightarrow> Some (Inl e)
                        | Some (Inr (Inl r)) \<Rightarrow> Some (Inr r)
                        | Some (Inr (Inr ineedle2)) \<Rightarrow>
                            (case load32 s (icell1 + 4) of
                               None \<Rightarrow> Some (Inl RuntimeError)
                             | Some r \<Rightarrow>
                                 if i32_shl r 2 = 0 then Some (noSegment s ineedle2)
                                 else (case load32 s (i32_shl r 2) of
                                        None \<Rightarrow> Some (Inl RuntimeError)
                                      | Some d \<Rightarrow>
                                          if d = 0
                                          then (case labelBoundaryW s ineedle2 of
                                                  None \<Rightarrow> Some (Inl RuntimeError)
                                                | Some lb \<Rightarrow>
                                                    if lb then Some (Inr (i32_signed ineedle2))
                                                    else (case load32 s (i32_shl r 2 + 4) of
                                                            None \<Rightarrow> Some (Inl RuntimeError)
                                                          | Some r3 \<Rightarrow>
                                                              nextSegment s char0w
                                                                (i32_shl r3 2) ineedle2))
                                          else nextSegment s char0w (i32_shl r 2) ineedle2))))))"

definition matchesWASM :: "manager \<Rightarrow> nat \<Rightarrow> (error + int) option" where
  "matchesWASM s root =
     (case load32 s 264 of
        None \<Rightarrow> Some (Inl RuntimeError)
      | Some char0w \<Rightarrow>
          (case load8_u s 255 of
             None \<Rightarrow> Some (Inl RuntimeError)
           | Some ineedle \<Rightarrow> nextSegment s char0w (i32_shl root 2) ineedle))"

text \<open>The two matchers on the buffer of the trie made of \<open>hs\<close>, with the needle
  \<open>q\<close>.\<close>

definition both_matchers :: "string list \<Rightarrow> string \<Rightarrow> int option \<times> (error + int) option" where
  "both_matchers hs q =
     (case fromIterable_loop (snd (create hnBigTrieManager))
             (fst (create hnBigTrieManager)) hs of
        Some (Inr s) \<Rightarrow>
          (matchesJS (setNeedle s q) (iroot (fst (create hnBigTrieManager))),
           matchesWASM (setNeedle s q) (iroot (fst (create hnBigTrieManager))))
      | _ \<Rightarrow> (None, None))"

section \<open>HNBigTrieContainer, the later container kept in wasm/hnbigtrie.wat\<close>

text \<open>
  The later container keeps \<open>trie0\<close>, \<open>trie1\<close>, \<open>char0\<close> and \<open>char1\<close> in the
  buffer itself, in the 32-bit slots 64 to 67 (bytes 256 to 271); its cells start
  at byte 272. Its fields are those of the source with the suffix \<open>C\<close>.
\<close>

record HNBigTrieContainer =
  bufC :: "nat \<Rightarrow> nat"
  blenC :: nat
  needleC :: string
  wasmMemoryC :: bool

definition HNBIGTRIE_TRIE0_SLOT :: nat where "HNBIGTRIE_TRIE0_SLOT = 256 div 4"
definition HNBIGTRIE_TRIE1_SLOT :: nat where "HNBIGTRIE_TRIE1_SLOT = HNBIGTRIE_TRIE0_SLOT + 1"
definition HNBIGTRIE_CHAR0_SLOT :: nat where "HNBIGTRIE_CHAR0_SLOT = HNBIGTRIE_TRIE0_SLOT + 2"
definition HNBIGTRIE_CHAR1_SLOT :: nat where "HNBIGTRIE_CHAR1_SLOT = HNBIGTRIE_TRIE0_SLOT + 3"
definition HNBIGTRIE_TRIE0_START :: nat where
  "HNBIGTRIE_TRIE0_START = (HNBIGTRIE_TRIE0_SLOT + 4) * 4"

definition rd8C :: "HNBigTrieContainer \<Rightarrow> nat \<Rightarrow> nat option" where
  "rd8C s a = (if a < blenC s then Some (bufC s a) else None)"

definition wr8C :: "HNBigTrieContainer \<Rightarrow> nat \<Rightarrow> nat \<Rightarrow> HNBigTrieContainer" where
  "wr8C s a v = (if a < blenC s then s\<lparr>bufC := (bufC s)(a := v mod 256)\<rparr> else s)"

definition rd32C :: "HNBigTrieContainer \<Rightarrow> nat \<Rightarrow> nat option" where
  "rd32C s i =
     (if 4 * i + 4 \<le> blenC s
      then Some (bufC s (4 * i) + 256 * bufC s (4 * i + 1) + 65536 * bufC s (4 * i + 2)
                 + 16777216 * bufC s (4 * i + 3))
      else None)"

definition wr32C :: "HNBigTrieContainer \<Rightarrow> nat \<Rightarrow> nat \<Rightarrow> HNBigTrieContainer" where
  "wr32C s i v =
     (if 4 * i + 4 \<le> blenC s
      then s\<lparr>bufC := (bufC s)(4 * i := v mod 256, 4 * i + 1 := v div 256 mod 256,
                  4 * i + 2 := v div 65536 mod 256, 4 * i + 3 := v div 16777216 mod 256)\<rparr>
      else s)"

definition buf32C :: "HNBigTrieContainer \<Rightarrow> nat option \<Rightarrow> nat \<Rightarrow> nat option" where
  "buf32C s i k = (case i of None \<Rightarrow> None | Some j \<Rightarrow> rd32C s (j + k))"

definition set32C ::
  "HNBigTrieContainer \<Rightarrow> nat option \<Rightarrow> nat \<Rightarrow> nat option \<Rightarrow> HNBigTrieContainer" where
  "set32C s i k v = (case i of None \<Rightarrow> s | Some j \<Rightarrow> wr32C s (j + k) (toU32 v))"

text \<open>The constructor, called with no details, and \<open>create\<close>.\<close>

definition new_HNBigTrieContainer :: HNBigTrieContainer where
  "new_HNBigTrieContainer =
     (let s0 = \<lparr>bufC = (\<lambda>_. 0), blenC = 131072, needleC = [], wasmMemoryC = False\<rparr>;
          s1 = wr32C s0 HNBIGTRIE_TRIE0_SLOT HNBIGTRIE_TRIE0_START;
          s2 = wr32C s1 HNBIGTRIE_TRIE1_SLOT (toU32 (rd32C s1 HNBIGTRIE_TRIE0_SLOT));
          s3 = wr32C s2 HNBIGTRIE_CHAR0_SLOT 65536
      in wr32C s3 HNBIGTRIE_CHAR1_SLOT (toU32 (rd32C s3 HNBIGTRIE_CHAR0_SLOT)))"

record HNBigTrieRefC =
  irootC :: nat
  sizeC :: nat

definition createC :: "HNBigTrieContainer \<Rightarrow> HNBigTrieRefC \<times> HNBigTrieContainer" where
  "createC s =
     (let r = toU32 (rd32C s HNBIGTRIE_TRIE1_SLOT) div 4;
          s1 = wr32C s HNBIGTRIE_TRIE1_SLOT (toU32 (rd32C s HNBIGTRIE_TRIE1_SLOT) + 12);
          s2 = wr32C s1 r 0;
          s3 = wr32C s2 (r + 1) 0;
          s4 = wr32C s3 (r + 2) 0
      in (\<lparr>irootC = r, sizeC = 0\<rparr>, s4))"

subsection \<open>setNeedle, addCell, addSegment, growBuf and addJS of the later container\<close>

fun setNeedleC_loop :: "HNBigTrieContainer \<Rightarrow> string \<Rightarrow> nat \<Rightarrow> HNBigTrieContainer" where
  "setNeedleC_loop s ndl i =
     (if i = 0 then s
      else setNeedleC_loop (wr8C s (i - 1) (of_char (ndl ! (i - 1)))) ndl (i - 1))"

declare setNeedleC_loop.simps [simp del]

definition setNeedleC :: "HNBigTrieContainer \<Rightarrow> string \<Rightarrow> HNBigTrieContainer" where
  "setNeedleC s ndl =
     (if ndl \<noteq> needleC s
      then let i = (if length ndl > 254 then 254 else length ndl)
           in (setNeedleC_loop (wr8C s 255 i) ndl i)\<lparr>needleC := ndl\<rparr>
      else s)"

definition addCell ::
  "HNBigTrieContainer \<Rightarrow> nat option \<Rightarrow> nat option \<Rightarrow> nat \<Rightarrow> nat \<times> HNBigTrieContainer" where
  "addCell s idown iright v =
     (let icell = toU32 (rd32C s HNBIGTRIE_TRIE1_SLOT);
          s1 = wr32C s HNBIGTRIE_TRIE1_SLOT (icell + 12);
          s2 = wr32C s1 (icell div 4) (toU32 idown);
          s3 = wr32C s2 (icell div 4 + 1) (toU32 iright);
          s4 = wr32C s3 (icell div 4 + 2) (v mod 2 ^ 32)
      in (icell div 4, s4))"

text \<open>The \<open>do ... while ( i !== 0 )\<close> of \<open>addSegment\<close>, entered with \<open>i > 0\<close>;
  \<open>char1v\<close> is the local variable \<open>char1\<close>.\<close>

fun addSegment_loop :: "HNBigTrieContainer \<Rightarrow> nat \<Rightarrow> nat \<Rightarrow> nat \<times> HNBigTrieContainer" where
  "addSegment_loop s char1v i =
     (if i = 0 then (char1v, s)
      else addSegment_loop
             (wr8C s char1v (case rd8C s (i - 1) of None \<Rightarrow> 0 | Some b \<Rightarrow> b))
             (char1v + 1) (i - 1))"

declare addSegment_loop.simps [simp del]

definition addSegment :: "HNBigTrieContainer \<Rightarrow> nat \<Rightarrow> nat \<times> HNBigTrieContainer" where
  "addSegment s lsegchar =
     (if lsegchar = 0 then (0, s)
      else let char1v = toU32 (rd32C s HNBIGTRIE_CHAR1_SLOT);
               isegchar = char1v - toU32 (rd32C s HNBIGTRIE_CHAR0_SLOT);
               (char1w, s1) = addSegment_loop s char1v lsegchar
           in (shl24_or lsegchar isegchar, wr32C s1 HNBIGTRIE_CHAR1_SLOT char1w))"

definition resized_bufC :: "HNBigTrieContainer \<Rightarrow> nat \<Rightarrow> nat \<Rightarrow> nat" where
  "resized_bufC s c0 a =
     (if c0 \<le> a \<and> a < c0 + (toU32 (rd32C s HNBIGTRIE_CHAR1_SLOT)
                              - toU32 (rd32C s HNBIGTRIE_CHAR0_SLOT))
      then bufC s (a - c0 + toU32 (rd32C s HNBIGTRIE_CHAR0_SLOT))
      else if a < toU32 (rd32C s HNBIGTRIE_TRIE1_SLOT) then bufC s a else 0)"

text \<open>\<open>resizeBuf\<close> for a container that has no WebAssembly memory.\<close>

definition resizeBufC :: "HNBigTrieContainer \<Rightarrow> nat \<Rightarrow> nat \<Rightarrow> nat \<Rightarrow> error + HNBigTrieContainer" where
  "resizeBufC s c0 c1 buf1 =
     (let t1 = toU32 (rd32C s HNBIGTRIE_TRIE1_SLOT);
          ch0 = toU32 (rd32C s HNBIGTRIE_CHAR0_SLOT);
          ch1 = toU32 (rd32C s HNBIGTRIE_CHAR1_SLOT)
      in if buf1 = blenC s then Inr s
         else if 2 ^ 31 \<le> buf1 then Inl RangeError
         else if blenC s < t1 \<or> buf1 < t1 then Inl RangeError
         else if ch1 < ch0 \<or> blenC s < ch1 \<or> buf1 < c0 + (ch1 - ch0) then Inl RangeError
         else Inr (wr32C (wr32C (s\<lparr>bufC := resized_bufC s c0, blenC := buf1\<rparr>)
                            HNBIGTRIE_CHAR0_SLOT c0)
                     HNBIGTRIE_CHAR1_SLOT c1))"

definition growBufC :: "HNBigTrieContainer \<Rightarrow> error + HNBigTrieContainer" where
  "growBufC s =
     (let t1 = toU32 (rd32C s HNBIGTRIE_TRIE1_SLOT);
          ch0 = toU32 (rd32C s HNBIGTRIE_CHAR0_SLOT);
          ch1 = toU32 (rd32C s HNBIGTRIE_CHAR1_SLOT);
          c0 = max ((t1 + 24 + 65535) - (t1 + 24 + 65535) mod 65536) ch0;
          c1 = c0 + ch1 - ch0;
          buf1 = max ((c1 + 256 + 65535) - (c1 + 256 + 65535) mod 65536) (blenC s)
      in resizeBufC s c0 c1 buf1)"

text \<open>The loop of \<open>addJS\<close> that finds the first mismatch in the rest of a
  segment; the result is \<open>(isegchar, lhnchar)\<close>.\<close>

function mismatch_loop :: "HNBigTrieContainer \<Rightarrow> nat \<Rightarrow> nat \<Rightarrow> nat \<Rightarrow> nat \<Rightarrow> nat \<times> nat" where
  "mismatch_loop s isegchar0 lsegchar isegchar lhnchar =
     (if isegchar = lsegchar then (isegchar, lhnchar)
      else if lhnchar = 0 then (isegchar, lhnchar)
      else if rd8C s (isegchar0 + isegchar) \<noteq> rd8C s (lhnchar - 1) then (isegchar, lhnchar)
      else mismatch_loop s isegchar0 lsegchar (isegchar + 1) (lhnchar - 1))"
  by pat_completeness auto
termination
  by (relation "measure (\<lambda>(s, isegchar0, lsegchar, isegchar, lhnchar). lhnchar)") auto

declare mismatch_loop.simps [simp del]

definition attach_downC :: "HNBigTrieContainer \<Rightarrow> nat option \<Rightarrow> nat \<Rightarrow> nat \<times> HNBigTrieContainer" where
  "attach_downC s icell lhnchar =
     (let (v, s1) = addSegment s lhnchar;
          (c, s2) = addCell s1 (Some 0) (Some 0) v
      in (1, set32C s2 icell 0 (Some c)))"

definition insert_boundaryC :: "HNBigTrieContainer \<Rightarrow> nat option \<Rightarrow> nat option \<Rightarrow> nat \<times> HNBigTrieContainer" where
  "insert_boundaryC s icell inext =
     (let (b, s1) = addCell s (Some 0) inext 0
      in (1, set32C s1 icell 1 (Some b)))"

definition attach_boundary_rightC :: "HNBigTrieContainer \<Rightarrow> nat option \<Rightarrow> nat \<Rightarrow> nat \<times> HNBigTrieContainer" where
  "attach_boundary_rightC s icell lhnchar =
     (let (b, s1) = addCell s (Some 0) (Some 0) 0;
          s2 = set32C s1 icell 1 (Some b);
          (v, s3) = addSegment s2 lhnchar;
          (c, s4) = addCell s3 (Some 0) (Some 0) v
      in (1, set32C s4 (Some b) 1 (Some c)))"

definition split_cellC ::
  "HNBigTrieContainer \<Rightarrow> nat option \<Rightarrow> nat \<Rightarrow> nat \<Rightarrow> nat \<Rightarrow> nat \<Rightarrow> nat \<times> HNBigTrieContainer" where
  "split_cellC s icell isegchar0 lsegchar isegchar lhnchar =
     (let s1 = set32C s icell 2 (Some (shl24_or isegchar isegchar0));
          (t, s2) = addCell s1 (Some 0) (buf32C s1 icell 1)
                      (shl24_or (lsegchar - isegchar) (isegchar0 + isegchar));
          s3 = set32C s2 icell 1 (Some t)
      in if lhnchar = 0 then insert_boundaryC s3 icell (Some t)
         else (let (w, s4) = addSegment s3 lhnchar;
                   (c, s5) = addCell s4 (Some 0) (Some 0) w
               in (1, set32C s5 (Some t) 0 (Some c))))"

partial_function (option) addJS_loop ::
  "HNBigTrieContainer \<Rightarrow> nat \<Rightarrow> nat option \<Rightarrow> nat \<Rightarrow> (nat \<times> HNBigTrieContainer) option" where
  "addJS_loop s char0v icell lhnchar =
     (let vseg = buf32C s icell 2
      in if vseg = Some 0 then addJS_loop s char0v (buf32C s icell 1) lhnchar
         else let isegchar0 = char0v + toU32 vseg mod 2 ^ 24
              in if rd8C s isegchar0 \<noteq> rd8C s (lhnchar - 1)
                 then (let inext = buf32C s icell 0
                       in if inext = Some 0 then Some (attach_downC s icell lhnchar)
                          else addJS_loop s char0v inext lhnchar)
                 else let lsegchar = toU32 vseg div 2 ^ 24;
                          (isegchar, lhnchar1) =
                             (if lsegchar \<noteq> 1
                              then mismatch_loop s isegchar0 lsegchar 1 (lhnchar - 1)
                              else (1, lhnchar - 1));
                          inext = buf32C s icell 1
                      in if isegchar = lsegchar
                         then (if lhnchar1 = 0
                               then (if inext = Some 0 \<or> buf32C s inext 2 = Some 0
                                     then Some (0, s)
                                     else Some (insert_boundaryC s icell inext))
                               else if inext \<noteq> Some 0
                               then addJS_loop s char0v inext lhnchar1
                               else Some (attach_boundary_rightC s icell lhnchar1))
                         else Some (split_cellC s icell (isegchar0 - char0v) lsegchar
                                      isegchar lhnchar1))"

definition addJS :: "HNBigTrieContainer \<Rightarrow> nat \<Rightarrow> (error + nat \<times> HNBigTrieContainer) option" where
  "addJS s root =
     (if bufC s 255 = 0 then Some (Inr (0, s))
      else if rd32C s (root + 2) = Some 0
      then (let (v, s1) = addSegment s (bufC s 255)
            in Some (Inr (1, wr32C s1 (root + 2) v)))
      else case (if toU32 (rd32C s HNBIGTRIE_CHAR0_SLOT) - toU32 (rd32C s HNBIGTRIE_TRIE1_SLOT) < 24
                    \<or> blenC s - toU32 (rd32C s HNBIGTRIE_CHAR1_SLOT) < 256
                 then growBufC s else Inr s) of
             Inl e \<Rightarrow> Some (Inl e)
           | Inr s1 \<Rightarrow>
               map_option Inr
                 (addJS_loop s1 (toU32 (rd32C s1 HNBIGTRIE_CHAR0_SLOT)) (Some root)
                    (bufC s 255)))"

text \<open>\<open>HNBigTrieRef.addJS\<close> counts the hostnames added.\<close>

definition HNBigTrieRefC_addJS ::
  "HNBigTrieContainer \<Rightarrow> HNBigTrieRefC \<Rightarrow> string
     \<Rightarrow> (error + bool \<times> HNBigTrieRefC \<times> HNBigTrieContainer) option" where
  "HNBigTrieRefC_addJS s r hn =
     (case addJS (setNeedleC s hn) (irootC r) of
        None \<Rightarrow> None
      | Some (Inl e) \<Rightarrow> Some (Inl e)
      | Some (Inr (n, s1)) \<Rightarrow>
          if n = 1 then Some (Inr (True, r\<lparr>sizeC := sizeC r + 1\<rparr>, s1))
          else Some (Inr (False, r, s1)))"

fun fromIterableC_loop ::
  "HNBigTrieContainer \<Rightarrow> HNBigTrieRefC \<Rightarrow> string list
     \<Rightarrow> (error + HNBigTrieRefC \<times> HNBigTrieContainer) option" where
  "fromIterableC_loop s r [] = Some (Inr (r, s))"
| "fromIterableC_loop s r (hn # hostnames) =
     (case HNBigTrieRefC_addJS s r hn of
        None \<Rightarrow> None
      | Some (Inl e) \<Rightarrow> Some (Inl e)
      | Some (Inr (_, r1, s1)) \<Rightarrow> fromIterableC_loop s1 r1 hostnames)"

definition fromIterableC ::
  "HNBigTrieContainer \<Rightarrow> string list \<Rightarrow> (error + HNBigTrieRefC \<times> HNBigTrieContainer) option" where
  "fromIterableC s hostnames =
     fromIterableC_loop (snd (createC s)) (fst (createC s)) hostnames"

subsection \<open>The iterator of a trie reference\<close>

text \<open>
  The iterator object: the cell to visit next, the 256 bytes \<open>charBuf\<close> filled
  from the end, \<open>charPtr\<close>, the stack \<open>forks\<close> (its top is the head of the
  list), and \<open>value\<close> and \<open>done\<close> (\<open>value_it\<close>, \<open>done_it\<close>). \<open>TextDecoder\<close> maps bytes below 128 to the
  characters with these codes.
\<close>

record iterator =
  icell :: "nat option"
  charBuf :: "nat \<Rightarrow> nat"
  charPtr :: int
  forks :: "(nat option \<times> int) list"
  value_it :: "string option"
  done_it :: bool

definition iterator_of :: "HNBigTrieRefC \<Rightarrow> iterator" where
  "iterator_of r =
     \<lparr>icell = Some (irootC r), charBuf = (\<lambda>_. 0), charPtr = 256, forks = [],
      value_it = None, done_it = False\<rparr>"

text \<open>\<open>new Uint8Array(this.charBuf.buffer, this.charPtr)\<close> throws a \<open>RangeError\<close>
  for an offset outside of the 256 bytes.\<close>

definition toHostname :: "iterator \<Rightarrow> error + iterator" where
  "toHostname it =
     (if charPtr it < 0 \<or> 256 < charPtr it then Inl RangeError
      else Inr (it\<lparr>value_it := Some (map (\<lambda>i. char_of (charBuf it i))
                                 [nat (charPtr it) ..< 256])\<rparr>))"

function copy_chars :: "HNBigTrieContainer \<Rightarrow> iterator \<Rightarrow> nat \<Rightarrow> nat \<Rightarrow> iterator" where
  "copy_chars s it i0 i1 =
     (if i0 < i1
      then copy_chars s
             (it\<lparr>charPtr := charPtr it - 1,
                 charBuf := (if 0 \<le> charPtr it - 1 \<and> charPtr it - 1 < 256
                             then (charBuf it)(nat (charPtr it - 1) :=
                                    (case rd8C s i0 of None \<Rightarrow> 0 | Some b \<Rightarrow> b))
                             else charBuf it)\<rparr>)
             (i0 + 1) i1
      else it)"
  by pat_completeness auto
termination
  by (relation "measure (\<lambda>(s, it, i0, i1). i1 - i0)") auto

declare copy_chars.simps [simp del]

partial_function (option) next_loop ::
  "HNBigTrieContainer \<Rightarrow> iterator \<Rightarrow> (error + iterator) option" where
  "next_loop s it =
     (let idown = buf32C s (icell it) 0;
          it1 = (if idown \<noteq> Some 0 then it\<lparr>forks := (idown, charPtr it) # forks it\<rparr> else it);
          v = toU32 (buf32C s (icell it1) 2);
          i0 = toU32 (rd32C s HNBIGTRIE_CHAR0_SLOT) + v mod 2 ^ 24;
          it2 = copy_chars s it1 i0 (i0 + v div 2 ^ 24);
          it3 = it2\<lparr>icell := buf32C s (icell it2) 1\<rparr>
      in if icell it3 = Some 0 then Some (toHostname it3)
         else if buf32C s (icell it3) 2 = Some 0
         then Some (toHostname (it3\<lparr>icell := buf32C s (icell it3) 1\<rparr>))
         else next_loop s it3)"

definition next_it :: "HNBigTrieContainer \<Rightarrow> iterator \<Rightarrow> (error + iterator) option" where
  "next_it s it =
     (if icell it = Some 0
      then (case forks it of
              [] \<Rightarrow> Some (Inr (it\<lparr>value_it := None, done_it := True\<rparr>))
            | (c, p) # fs \<Rightarrow> next_loop s (it\<lparr>charPtr := p, icell := c, forks := fs\<rparr>))
      else next_loop s it)"

text \<open>What a \<open>for ... of\<close> loop over the reference sees: the values up to \<open>done\<close>.\<close>

partial_function (option) iterate_from ::
  "HNBigTrieContainer \<Rightarrow> iterator \<Rightarrow> string list \<Rightarrow> (error + string list) option" where
  "iterate_from s it seen =
     (case next_it s it of
        None \<Rightarrow> None
      | Some (Inl e) \<Rightarrow> Some (Inl e)
      | Some (Inr it1) \<Rightarrow>
          if done_it it1 then Some (Inr seen)
          else iterate_from s it1
                 (seen @ [case value_it it1 of None \<Rightarrow> [] | Some h \<Rightarrow> h]))"

definition iterate :: "HNBigTrieContainer \<Rightarrow> HNBigTrieRefC \<Rightarrow> (error + string list) option" where
  "iterate s r = iterate_from s (iterator_of r) []"

text \<open>The hostnames an iteration yields for the trie made of \<open>hs\<close> in a new
  container.\<close>

definition iterate_after :: "string list \<Rightarrow> (error + string list) option" where
  "iterate_after hs =
     (case fromIterableC new_HNBigTrieContainer hs of
        Some (Inr (r, s)) \<Rightarrow> iterate s r
      | Some (Inl e) \<Rightarrow> Some (Inl e)
      | None \<Rightarrow> None)"

section \<open>Properties of hnBigTrieManager\<close>

lemmas weak_congs =
  let_weak_cong prod.case_cong_weak option.case_cong_weak sum.case_cong_weak

subsection \<open>What the writes leave alone\<close>

lemma wr8_fields [simp]:
  "blen (wr8 s a v) = blen s" "trie0 (wr8 s a v) = trie0 s" "trie1 (wr8 s a v) = trie1 s"
  "char0 (wr8 s a v) = char0 s" "char1 (wr8 s a v) = char1 s" "id_gen (wr8 s a v) = id_gen s"
  "needle (wr8 s a v) = needle s" "wasmMemory (wr8 s a v) = wasmMemory s"
  "segments (wr8 s a v) = segments s"
  by (simp_all add: wr8_def)

lemma wr32_fields [simp]:
  "blen (wr32 s i v) = blen s" "trie0 (wr32 s i v) = trie0 s" "trie1 (wr32 s i v) = trie1 s"
  "char0 (wr32 s i v) = char0 s" "char1 (wr32 s i v) = char1 s" "id_gen (wr32 s i v) = id_gen s"
  "needle (wr32 s i v) = needle s" "wasmMemory (wr32 s i v) = wasmMemory s"
  "segments (wr32 s i v) = segments s"
  by (simp_all add: wr32_def)

lemma set32_fields [simp]:
  "blen (set32 s i k v) = blen s" "trie0 (set32 s i k v) = trie0 s"
  "trie1 (set32 s i k v) = trie1 s" "char0 (set32 s i k v) = char0 s"
  "char1 (set32 s i k v) = char1 s" "id_gen (set32 s i k v) = id_gen s"
  "needle (set32 s i k v) = needle s" "wasmMemory (set32 s i k v) = wasmMemory s"
  "segments (set32 s i k v) = segments s"
  by (simp_all add: set32_def split: option.split)

lemma buf_wr8: "buf (wr8 s a v) b = (if b = a \<and> a < blen s then v mod 256 else buf s b)"
  by (simp add: wr8_def)

lemma wr8_put8: "a < blen s \<Longrightarrow> wr8 s a v = put8 s a v"
  by (simp add: wr8_def put8_def)

lemma wr8_out: "\<not> a < blen s \<Longrightarrow> wr8 s a v = s"
  by (simp add: wr8_def)

lemma wr32_put32: "4 * i + 4 \<le> blen s \<Longrightarrow> wr32 s i v = put32 s i v"
  by (simp add: wr32_def put32_def)

lemma wr32_out: "\<not> 4 * i + 4 \<le> blen s \<Longrightarrow> wr32 s i v = s"
  by (simp add: wr32_def)

lemma put8_fields [simp]:
  "blen (put8 s a v) = blen s" "trie0 (put8 s a v) = trie0 s" "trie1 (put8 s a v) = trie1 s"
  "char0 (put8 s a v) = char0 s" "char1 (put8 s a v) = char1 s" "id_gen (put8 s a v) = id_gen s"
  "needle (put8 s a v) = needle s" "wasmMemory (put8 s a v) = wasmMemory s"
  "segments (put8 s a v) = segments s"
  by (simp_all add: put8_def)

lemma put32_fields [simp]:
  "blen (put32 s i v) = blen s" "trie0 (put32 s i v) = trie0 s" "trie1 (put32 s i v) = trie1 s"
  "char0 (put32 s i v) = char0 s" "char1 (put32 s i v) = char1 s" "id_gen (put32 s i v) = id_gen s"
  "needle (put32 s i v) = needle s" "wasmMemory (put32 s i v) = wasmMemory s"
  "segments (put32 s i v) = segments s"
  by (simp_all add: put32_def)

lemma buf_put8: "buf (put8 s a v) b = (if b = a then v mod 256 else buf s b)"
  by (simp add: put8_def)

lemma buf_put32:
  "buf (put32 s i v) b = (if b div 4 = i then v div 256 ^ (b mod 4) mod 256 else buf s b)"
proof (cases "b div 4 = i")
  case True
  then have b: "b = 4 * i + b mod 4" by (metis mult.commute mult_div_mod_eq)
  consider "b mod 4 = 0" | "b mod 4 = 1" | "b mod 4 = 2" | "b mod 4 = 3" by arith
  then show ?thesis
  proof cases
    case 1
    with b have "b = 4 * i" by simp
    with 1 True show ?thesis by (simp add: put32_def)
  next
    case 2
    with b have "b = 4 * i + 1" by simp
    with 2 True show ?thesis by (simp add: put32_def)
  next
    case 3
    with b have "b = 4 * i + 2" by simp
    with 3 True show ?thesis by (simp add: put32_def)
  next
    case 4
    with b have "b = 4 * i + 3" by simp
    with 4 True show ?thesis by (simp add: put32_def)
  qed
next
  case False
  then have "b \<noteq> 4 * i" "b \<noteq> 4 * i + 1" "b \<noteq> 4 * i + 2" "b \<noteq> 4 * i + 3" by auto
  with False show ?thesis by (simp add: put32_def)
qed

lemma bytes_word:
  "v mod 256 + 256 * (v div 256 mod 256) + 65536 * (v div 65536 mod 256)
     + 16777216 * (v div 16777216 mod 256) = v mod 2 ^ 32" for v :: nat
proof -
  have a: "v mod (256 * 256) = 256 * (v div 256 mod 256) + v mod 256"
    by (rule mod_mult2_eq)
  have b: "v mod (65536 * 256) = 65536 * (v div 65536 mod 256) + v mod 65536"
    by (rule mod_mult2_eq)
  have c: "v mod (16777216 * 256) = 16777216 * (v div 16777216 mod 256) + v mod 16777216"
    by (rule mod_mult2_eq)
  have "v mod 4294967296 = v mod 256 + 256 * (v div 256 mod 256)
      + 65536 * (v div 65536 mod 256) + 16777216 * (v div 16777216 mod 256)"
    using a b c by (simp only: mult_numeral_left_semiring_numeral num.simps arith_simps)
  then show ?thesis by simp
qed

lemma rd32_put32:
  "rd32 (put32 s i v) j =
     (if j = i then (if 4 * i + 4 \<le> blen s then Some (v mod 2 ^ 32) else None) else rd32 s j)"
proof (cases "j = i")
  case True
  then show ?thesis
    using bytes_word [of v] by (simp add: rd32_def put32_def)
next
  case False
  then have "(4 * j + k) div 4 \<noteq> i" if "k < 4" for k using that by auto
  then have "buf (put32 s i v) (4 * j + k) = buf s (4 * j + k)" if "k < 4" for k
    using that by (simp add: buf_put32)
  from this [of 0] this [of 1] this [of 2] this [of 3] False show ?thesis
    by (simp add: rd32_def)
qed

lemma rd32_put8:
  "rd32 (put8 s a v) j =
     (if a div 4 = j
      then (if 4 * j + 4 \<le> blen s
            then Some (buf (put8 s a v) (4 * j) + 256 * buf (put8 s a v) (4 * j + 1)
                       + 65536 * buf (put8 s a v) (4 * j + 2)
                       + 16777216 * buf (put8 s a v) (4 * j + 3))
            else None)
      else rd32 s j)"
proof (cases "a div 4 = j")
  case True
  then show ?thesis by (simp add: rd32_def)
next
  case False
  then have "a \<noteq> 4 * j" "a \<noteq> 4 * j + 1" "a \<noteq> 4 * j + 2" "a \<noteq> 4 * j + 3" by auto
  with False show ?thesis by (simp add: rd32_def buf_put8)
qed

lemma rd32_updates [simp]:
  "rd32 (s\<lparr>trie0 := x0\<rparr>) j = rd32 s j" "rd32 (s\<lparr>trie1 := x1\<rparr>) j = rd32 s j"
  "rd32 (s\<lparr>char0 := x2\<rparr>) j = rd32 s j" "rd32 (s\<lparr>char1 := x3\<rparr>) j = rd32 s j"
  "rd32 (s\<lparr>id_gen := x4\<rparr>) j = rd32 s j" "rd32 (s\<lparr>needle := x5\<rparr>) j = rd32 s j"
  "rd32 (s\<lparr>wasmMemory := x6\<rparr>) j = rd32 s j" "rd32 (s\<lparr>segments := x7\<rparr>) j = rd32 s j"
  by (simp_all add: rd32_def)

lemma rd8_updates [simp]:
  "rd8 (s\<lparr>trie0 := x0\<rparr>) j = rd8 s j" "rd8 (s\<lparr>trie1 := x1\<rparr>) j = rd8 s j"
  "rd8 (s\<lparr>char0 := x2\<rparr>) j = rd8 s j" "rd8 (s\<lparr>char1 := x3\<rparr>) j = rd8 s j"
  "rd8 (s\<lparr>id_gen := x4\<rparr>) j = rd8 s j" "rd8 (s\<lparr>needle := x5\<rparr>) j = rd8 s j"
  "rd8 (s\<lparr>wasmMemory := x6\<rparr>) j = rd8 s j" "rd8 (s\<lparr>segments := x7\<rparr>) j = rd8 s j"
  by (simp_all add: rd8_def)

lemma hnBigTrieManager_fields:
  "buf hnBigTrieManager a = 0" "blen hnBigTrieManager = 131072" "trie0 hnBigTrieManager = 256"
  "trie1 hnBigTrieManager = 256" "char0 hnBigTrieManager = 65536"
  "char1 hnBigTrieManager = 65536" "id_gen hnBigTrieManager = 0" "needle hnBigTrieManager = []"
  "wasmMemory hnBigTrieManager = False" "segments hnBigTrieManager x = None"
  "rd32 hnBigTrieManager j = (if 4 * j + 4 \<le> 131072 then Some 0 else None)"
  by (simp_all add: hnBigTrieManager_def rd32_def)

lemma setNeedle_loop_fields [simp]:
  "blen (setNeedle_loop s ndl i) = blen s" "trie0 (setNeedle_loop s ndl i) = trie0 s"
  "trie1 (setNeedle_loop s ndl i) = trie1 s" "char0 (setNeedle_loop s ndl i) = char0 s"
  "char1 (setNeedle_loop s ndl i) = char1 s" "id_gen (setNeedle_loop s ndl i) = id_gen s"
  "needle (setNeedle_loop s ndl i) = needle s"
  "wasmMemory (setNeedle_loop s ndl i) = wasmMemory s"
  "segments (setNeedle_loop s ndl i) = segments s"
  by (induction s ndl i rule: setNeedle_loop.induct; subst setNeedle_loop.simps; simp)+

lemma setNeedle_loop_buf:
  "buf (setNeedle_loop s ndl i) a =
     (if a < i \<and> a < blen s then of_char (ndl ! a) else buf s a)"
proof (induction s ndl i rule: setNeedle_loop.induct)
  case (1 s ndl i)
  show ?case
  proof (cases "i = 0")
    case True
    then show ?thesis by (subst setNeedle_loop.simps) simp
  next
    case False
    then have "buf (setNeedle_loop s ndl i) a =
      buf (setNeedle_loop (wr8 s (i - 1) (of_char (ndl ! (i - 1)))) ndl (i - 1)) a"
      by (subst setNeedle_loop.simps) simp
    also have "\<dots> = (if a < i - 1 \<and> a < blen s then of_char (ndl ! a)
                     else buf (wr8 s (i - 1) (of_char (ndl ! (i - 1)))) a)"
      using 1 False by simp
    also have "\<dots> = (if a < i \<and> a < blen s then of_char (ndl ! a) else buf s a)"
      using False by (auto simp: buf_wr8)
    finally show ?thesis .
  qed
qed

lemma setNeedle_longer_than_254:
  assumes "255 \<le> length ndl" and "ndl \<noteq> needle s" and "255 < blen s"
  shows "buf (setNeedle s ndl) 255 = 255"
    and "buf (setNeedle s ndl) 254 = of_char (ndl ! 254)"
  using assms by (auto simp: setNeedle_def Let_def setNeedle_loop_buf buf_wr8)

lemma newCell_fields [simp]:
  "fst (newCell s d r v) = trie1 s mod 2 ^ 32 div 4"
  "blen (snd (newCell s d r v)) = blen s" "trie0 (snd (newCell s d r v)) = trie0 s"
  "trie1 (snd (newCell s d r v)) = trie1 s + 12" "char0 (snd (newCell s d r v)) = char0 s"
  "char1 (snd (newCell s d r v)) = char1 s" "id_gen (snd (newCell s d r v)) = id_gen s"
  "needle (snd (newCell s d r v)) = needle s"
  "wasmMemory (snd (newCell s d r v)) = wasmMemory s"
  "segments (snd (newCell s d r v)) = segments s"
  by (simp_all add: newCell_def Let_def)

lemma create_fields [simp]:
  "ref_id (fst (create s)) = id_gen s" "iroot (fst (create s)) = trie1 s mod 2 ^ 32 div 4"
  "blen (snd (create s)) = blen s" "trie0 (snd (create s)) = trie0 s"
  "trie1 (snd (create s)) = trie1 s + 12" "char0 (snd (create s)) = char0 s"
  "char1 (snd (create s)) = char1 s" "id_gen (snd (create s)) = id_gen s"
  "needle (snd (create s)) = needle s" "wasmMemory (snd (create s)) = wasmMemory s"
  "segments (snd (create s)) = segments s"
  by (simp_all add: create_def Let_def)

lemma storeSegment_loop_fields [simp]:
  "blen (storeSegment_loop s i) = blen s" "trie0 (storeSegment_loop s i) = trie0 s"
  "trie1 (storeSegment_loop s i) = trie1 s" "char0 (storeSegment_loop s i) = char0 s"
  "char1 (storeSegment_loop s i) = char1 s + i" "id_gen (storeSegment_loop s i) = id_gen s"
  "needle (storeSegment_loop s i) = needle s"
  "wasmMemory (storeSegment_loop s i) = wasmMemory s"
  "segments (storeSegment_loop s i) = segments s"
  by (induction s i rule: storeSegment_loop.induct; subst storeSegment_loop.simps; simp)+

lemma storeSegment_fields [simp]:
  "blen (snd (storeSegment s n)) = blen s" "trie0 (snd (storeSegment s n)) = trie0 s"
  "trie1 (snd (storeSegment s n)) = trie1 s" "char0 (snd (storeSegment s n)) = char0 s"
  "id_gen (snd (storeSegment s n)) = id_gen s" "needle (snd (storeSegment s n)) = needle s"
  "wasmMemory (snd (storeSegment s n)) = wasmMemory s"
  by (simp_all add: storeSegment_def Let_def split: option.split)

lemma setNeedle_fields [simp]:
  "blen (setNeedle s ndl) = blen s" "trie0 (setNeedle s ndl) = trie0 s"
  "trie1 (setNeedle s ndl) = trie1 s" "char0 (setNeedle s ndl) = char0 s"
  "char1 (setNeedle s ndl) = char1 s" "id_gen (setNeedle s ndl) = id_gen s"
  "needle (setNeedle s ndl) = ndl" "wasmMemory (setNeedle s ndl) = wasmMemory s"
  "segments (setNeedle s ndl) = segments s"
  by (simp_all add: setNeedle_def Let_def)

lemma resizeBuf_id_gen: "resizeBuf s c0 c1 b1 = Inr s1 \<Longrightarrow> id_gen s1 = id_gen s"
  by (auto simp: resizeBuf_def split: if_splits)

lemma growBuf_id_gen: "growBuf s = Inr s1 \<Longrightarrow> id_gen s1 = id_gen s"
  by (auto simp: growBuf_def Let_def dest: resizeBuf_id_gen)

lemma optimize_id_gen: "optimize s = Inr s1 \<Longrightarrow> id_gen s1 = id_gen s"
  by (auto simp: optimize_def shrinkBuf_def Let_def dest: resizeBuf_id_gen)

lemma attach_down_id_gen [simp]: "id_gen (snd (attach_down s c k)) = id_gen s"
  by (simp add: attach_down_def Let_def split_def)

lemma attach_boundary_right_id_gen [simp]: "id_gen (snd (attach_boundary_right s c k)) = id_gen s"
  by (simp add: attach_boundary_right_def Let_def split_def)

lemma insert_boundary_id_gen [simp]: "id_gen (snd (insert_boundary s c)) = id_gen s"
  by (simp add: insert_boundary_def Let_def split_def)

lemma split_cell_id_gen [simp]: "id_gen (snd (split_cell s c v m k)) = id_gen s"
  by (simp add: split_cell_def Let_def split_def)

lemma add_loop_id_gen:
  assumes "add_loop s c k = Some y"
  shows "id_gen (snd y) = id_gen s"
proof (rule add_loop.raw_induct [where P = "\<lambda>s c k y. id_gen (snd y) = id_gen s", OF _ assms])
  fix f s icell ihnchar y
  assume IH: "\<And>s icell ihnchar y. f s icell ihnchar = Some y \<Longrightarrow> id_gen (snd y) = id_gen s"
    and body: "(let v = buf32 s icell 2
      in if v = Some 0 then f s (buf32 s icell 1) ihnchar
         else let imismatch = indexOfMismatch s v ihnchar
              in if imismatch = 0
                 then (let inext = buf32 s icell 0
                       in if inext \<noteq> Some 0 then f s inext ihnchar
                          else Some (attach_down s icell ihnchar))
                 else let ihnchar1 = ihnchar - imismatch;
                          lsegchar = toU32 v div 2 ^ 24;
                          inext = buf32 s icell 1
                      in if imismatch = lsegchar
                         then (if ihnchar1 \<noteq> 0
                               then (if inext \<noteq> Some 0 then f s inext ihnchar1
                                     else Some (attach_boundary_right s icell ihnchar1))
                               else if inext = Some 0 \<or> buf32 s inext 2 = Some 0
                               then Some (0, s)
                               else Some (insert_boundary s icell))
                         else Some (split_cell s icell (toU32 v) imismatch ihnchar1)) = Some y"
  from body show "id_gen (snd y) = id_gen s"
    by (auto simp: Let_def split: if_splits dest: IH)
qed

lemma add_id_gen: "add s root = Some (Inr (n, s1)) \<Longrightarrow> id_gen s1 = id_gen s"
  by (auto simp: add_def Let_def split_def split: if_splits sum.splits dest!: growBuf_id_gen add_loop_id_gen)

lemma run_call_id_gen: "run_call s c = Some s1 \<Longrightarrow> id_gen s1 = id_gen s"
  by (cases c)
     (auto split: option.splits sum.splits prod.splits dest: add_id_gen optimize_id_gen)

lemma run_calls_id_gen: "run_calls s cs = Some s1 \<Longrightarrow> id_gen s1 = id_gen s"
  by (induction cs arbitrary: s) (auto split: option.splits dest: run_call_id_gen)

lemma creates_fields [simp]:
  "trie1 (creates n s) = trie1 s + 12 * n" "blen (creates n s) = blen s"
  "char0 (creates n s) = char0 s" "char1 (creates n s) = char1 s"
  "id_gen (creates n s) = id_gen s" "needle (creates n s) = needle s"
  "wasmMemory (creates n s) = wasmMemory s" "segments (creates n s) = segments s"
  by (induction n) simp_all

text \<open>
  \<open>create\<close> writes the three words of the new root at \<open>trie1\<close> and does not look
  at \<open>char0\<close>: the bytes it sets to zero are those from \<open>trie1\<close> on, wherever the
  characters start.
\<close>

lemma buf_create:
  assumes "trie1 s mod 4 = 0" and "trie1 s + 12 \<le> blen s" and "blen s < 2 ^ 32"
  shows "buf (snd (create s)) a = (if trie1 s \<le> a \<and> a < trie1 s + 12 then 0 else buf s a)"
proof -
  from assms(1) obtain k where k: "trie1 s = 4 * k" by (auto simp: mod_eq_0_iff_dvd)
  with assms(2,3) have m: "(4 * k) mod 4294967296 = 4 * k" by simp
  from k assms(2) have b: "4 * k + 12 \<le> blen s" by simp
  show ?thesis
    using b by (auto simp: create_def Let_def wr32_def k m) arith
qed

lemma buf_creates:
  assumes "trie1 s mod 4 = 0" and "trie1 s + 12 * n \<le> blen s" and "blen s < 2 ^ 32"
  shows "buf (creates n s) a = (if trie1 s \<le> a \<and> a < trie1 s + 12 * n then 0 else buf s a)"
  using assms(2)
proof (induction n)
  case 0
  show ?case by simp
next
  case (Suc n)
  have "(trie1 s + 12 * n) mod 4 = 0" using assms(1) by presburger
  then have "buf (snd (create (creates n s))) a
             = (if trie1 s + 12 * n \<le> a \<and> a < trie1 s + 12 * n + 12 then 0
                else buf (creates n s) a)"
    using Suc.prems assms(3) by (subst buf_create) simp_all
  with Suc show ?case by auto
qed

text \<open>
  \<open>reset\<close> does not return when the buffer has grown beyond its first size and there
  is no WebAssembly memory: the assignment in its first branch throws, before the
  identifier is incremented.
\<close>

lemma reset_throws: "\<not> wasmMemory s \<Longrightarrow> 131072 < blen s \<Longrightarrow> reset s = Inl TypeError"
  by (simp add: reset_def)

text \<open>
  C7. With an empty needle (\<open>buf[255] = 0\<close>) \<open>add\<close> returns 0 and leaves the
  container as it is, and \<open>matchesJS\<close> returns -1, in every state and for every
  root.
\<close>

theorem empty_needle_noop:
  "buf s 255 = 0 \<Longrightarrow> add s root = Some (Inr (0, s)) \<and> matchesJS s root = Some (- 1)"
  by (simp add: add_def matchesJS_def)

theorem empty_needle_noop_witness:
  "buf hnBigTrieManager 255 = 0
   \<and> add hnBigTrieManager 64 = Some (Inr (0, hnBigTrieManager))
   \<and> matchesJS hnBigTrieManager 64 = Some (- 1)"
  using empty_needle_noop [of hnBigTrieManager 64] by (simp add: hnBigTrieManager_def)

text \<open>
  A \<open>reset\<close> that returns has added 1 to the identifier: every reference made
  before it is not valid after it, whatever calls follow, and a reference created
  after it is valid after any further calls other than \<open>reset\<close>.
\<close>

lemma reset_invalidates_references:
  assumes "reset s = Inr s1"
    and "run_calls s1 cs = Some s2"
    and "run_calls (snd (create s2)) cs' = Some s3"
    and "ref_id r \<le> id_gen s"
  shows "ref_id (fst (create s)) = id_gen s
         \<and> id_gen s1 = id_gen s + 1
         \<and> \<not> isValid s1 r \<and> \<not> isValid s2 r \<and> \<not> isValid s3 r
         \<and> isValid (snd (create s2)) (fst (create s2))
         \<and> isValid s3 (fst (create s2))"
proof -
  from assms(1) have a: "id_gen s1 = id_gen s + 1"
    by (auto simp: reset_def split: if_splits)
  from assms(2) have b: "id_gen s2 = id_gen s1"
    by (rule run_calls_id_gen)
  from assms(3) have c: "id_gen s3 = id_gen s2"
    by (auto dest: run_calls_id_gen)
  from a b c assms(4) show ?thesis
    by (simp add: isValid_def)
qed

lemma reset_invalidates_references_witness:
  "reset hnBigTrieManager = Inr (hnBigTrieManager\<lparr>id_gen := 1\<rparr>)
   \<and> run_calls (hnBigTrieManager\<lparr>id_gen := 1\<rparr>) [] = Some (hnBigTrieManager\<lparr>id_gen := 1\<rparr>)
   \<and> run_calls (snd (create (hnBigTrieManager\<lparr>id_gen := 1\<rparr>))) []
       = Some (snd (create (hnBigTrieManager\<lparr>id_gen := 1\<rparr>)))
   \<and> ref_id (fst (create hnBigTrieManager)) \<le> id_gen hnBigTrieManager
   \<and> \<not> isValid (snd (create (hnBigTrieManager\<lparr>id_gen := 1\<rparr>))) (fst (create hnBigTrieManager))
   \<and> isValid (snd (create (hnBigTrieManager\<lparr>id_gen := 1\<rparr>)))
        (fst (create (hnBigTrieManager\<lparr>id_gen := 1\<rparr>)))"
proof -
  have r: "reset hnBigTrieManager = Inr (hnBigTrieManager\<lparr>id_gen := 1\<rparr>)"
    by (simp add: reset_def hnBigTrieManager_def)
  have c1: "run_calls (hnBigTrieManager\<lparr>id_gen := 1\<rparr>) [] = Some (hnBigTrieManager\<lparr>id_gen := 1\<rparr>)"
    by simp
  have c2: "run_calls (snd (create (hnBigTrieManager\<lparr>id_gen := 1\<rparr>))) []
       = Some (snd (create (hnBigTrieManager\<lparr>id_gen := 1\<rparr>)))"
    by simp
  have i: "ref_id (fst (create hnBigTrieManager)) \<le> id_gen hnBigTrieManager"
    by simp
  from reset_invalidates_references [OF r c1 c2 i] r c1 c2 i show ?thesis
    by simp
qed

section \<open>Runs on concrete tries\<close>

lemmas run_simps =
  create_def rd8_def buf32_def toU32_def set32_def shl24_or_def setNeedle_def labelBoundary_def
  indexOfMismatch_def newCell_def storeSegment_def resizeBuf_def growBuf_def shrinkBuf_def
  optimize_def attach_down_def attach_boundary_right_def insert_boundary_def split_cell_def
  add_def matchesJS_def HNBigTrieRef_add_def HNBigTrieRef_matchesJS_def matches_after_def
  fromIterable_def layout_def Let_def
  storeSegment_loop.simps setNeedle_loop.simps indexOfMismatch_loop.simps
  matchesJS_loop.simps add_loop.simps
  wr8_put8 wr32_put32 wr8_out wr32_out buf_put8 buf_put32 rd32_put32 rd32_put8
  hnBigTrieManager_fields


lemmas wasm_simps =
  both_matchers_def matchesWASM_def nextSegment.simps findSegment.simps compareSegment.simps
  noSegment_def labelBoundaryW_def load8_u_def load32_def i32_add_def i32_shl_def
  i32_signed_def

lemmas container_simps =
  HNBIGTRIE_TRIE0_SLOT_def HNBIGTRIE_TRIE1_SLOT_def HNBIGTRIE_CHAR0_SLOT_def
  HNBIGTRIE_CHAR1_SLOT_def HNBIGTRIE_TRIE0_START_def rd8C_def wr8C_def rd32C_def wr32C_def
  buf32C_def set32C_def toU32_def shl24_or_def new_HNBigTrieContainer_def createC_def
  setNeedleC_def setNeedleC_loop.simps addCell_def addSegment_def addSegment_loop.simps
  resizeBufC_def growBufC_def mismatch_loop.simps attach_downC_def insert_boundaryC_def
  attach_boundary_rightC_def split_cellC_def addJS_loop.simps addJS_def
  HNBigTrieRefC_addJS_def fromIterableC_def iterator_of_def toHostname_def copy_chars.simps
  next_loop.simps next_it_def iterate_from.simps iterate_def iterate_after_def Let_def

text \<open>
  C1. The hostnames \<open>ab.com\<close> and \<open>cb.com\<close> are added to a new trie; the query
  \<open>b.com\<close> is neither of them and ends with neither of them after a dot, and
  \<open>matchesJS\<close> returns 0 for it: the chain of descendants is left with no match
  and the loop exit takes the label-boundary test for a match.
\<close>

theorem matchesJS_false_positive:
  "matches_after [''ab.com'', ''cb.com''] ''b.com'' = Some 0
   \<and> \<not> hostname_match ''ab.com'' ''b.com'' \<and> \<not> hostname_match ''cb.com'' ''b.com''"
  by (simp add: run_simps hostname_match_def suffix_def cong: weak_congs)

text \<open>
  C8. \<open>setNeedle\<close> of src/js/hnbigtrie.js cuts the needle at 255 characters, not at
  254: for a string of 255 characters the length byte \<open>buf[255]\<close> is 255 and the
  255th character is written to \<open>buf[254]\<close>.
\<close>

theorem setNeedle_keeps_255_bytes:
  "buf (setNeedle hnBigTrieManager (replicate 255 CHR ''a'')) 255 = 255
   \<and> buf (setNeedle hnBigTrieManager (replicate 255 CHR ''a'')) 254 = 97"
  using setNeedle_longer_than_254 [of "replicate 255 CHR ''a''" hnBigTrieManager]
  by (simp add: hnBigTrieManager_def)

text \<open>
  C2. The hostnames \<open>a.b.c\<close> and \<open>b.c\<close> are added to a new trie. For the query
  \<open>z.b.c\<close> the stored hostname \<open>b.c\<close> matches and two characters are left, but
  \<open>matchesJS\<close> returns 1: at a boundary cell it returns the constant 1.
\<close>

theorem matchesJS_returns_one_at_boundary:
  "matches_after [''a.b.c'', ''b.c''] ''z.b.c'' = Some 1"
  by (simp add: run_simps cong: weak_congs)

text \<open>
  C9. After \<open>fromIterable\<close> of the one hostname \<open>b.c\<close>, which ends with \<open>optimize\<close>,
  the cells end at 268, the characters are at 268..271 and the buffer has 272
  bytes: no room is left for a cell between the cells and the characters, and
  one byte is left after the characters.
\<close>

theorem optimize_leaves_no_reserve:
  "map_option (map_sum id (layout \<circ> snd)) (fromIterable hnBigTrieManager [''b.c''])
     = Some (Inr (268, 268, 271, 272))"
  by (simp add: run_simps cong: weak_congs)

text \<open>
  C3. On the buffer the container of src/js/hnbigtrie.js makes for the one
  hostname \<open>b.c\<close>, with the needle \<open>b.c\<close>, \<open>matchesJS\<close> returns 1 and the
  WebAssembly \<open>matches\<close> traps: it takes the word at byte 264, the segment of the
  root cell in this layout, for the start of the characters. On the buffer of an
  empty trie, with the needle \<open>a\<close>, \<open>matchesJS\<close> returns -1 and \<open>matches\<close>
  returns 0.
\<close>

theorem matchers_differ:
  "both_matchers [''b.c''] ''b.c'' = (Some 1, Some (Inl RuntimeError))
   \<and> both_matchers [] ''a'' = (Some (- 1), Some (Inr 0))"
  by (simp add: run_simps wasm_simps cong: weak_congs)

text \<open>
  C6. The iteration over a trie of the later container to which nothing was
  added yields one hostname, the empty string.
\<close>

theorem iterate_empty_trie:
  "iterate_after [] = Some (Inr [[]])"
  by (simp add: container_simps cong: weak_congs)

text \<open>The iteration over the trie of the one hostname \<open>b.c\<close> yields it.\<close>

lemma iterate_one_hostname:
  "iterate_after [''b.c''] = Some (Inr [''b.c''])"
  by (simp add: container_simps char_of_def bit_0 cong: weak_congs)

text \<open>
  C10. Every reference records the identifier of the container at its creation,
  but \<open>reset\<close> does not always increment the identifier. After 5440 calls of
  \<open>create\<close> and the hostname \<open>a\<close> added to the last trie the buffer has 196608
  bytes; \<open>reset\<close> then throws a \<open>TypeError\<close> and the reference made by the first
  \<open>create\<close> is still valid.
\<close>

theorem reset_throws_after_growth:
  "reset_after_growth = Some (196608, True, True)"
  by (simp add: reset_after_growth_def reset_attempt_def reset_def isValid_def run_simps
        rd32_def resized_buf_def cong: weak_congs)

text \<open>
  C5. The hostnames \<open>F\<close>, \<open>aX\<close> and \<open>bY\<close> are added to a new trie of the initial
  container in two orders. For the query \<open>z.aXF\<close>, which none of them matches,
  \<open>matchesJS\<close> returns -1 after the first order and 1 after the second: once
  \<open>F\<close> has matched, the cell 0 is read as a cell, that is the bytes 4 to 11 of the
  needle, and the search goes on at the cell 70, the number of the character
  \<open>F\<close>, which holds \<open>bY\<close> after the first order and \<open>aX\<close> after the second.
\<close>

theorem matchesJS_depends_on_order:
  "matches_after [''F'', ''aX'', ''bY''] ''z.aXF'' = Some (- 1)
   \<and> matches_after [''F'', ''bY'', ''aX''] ''z.aXF'' = Some 1"
  by (simp add: run_simps cong: weak_congs)

text \<open>
  C4. Adding a hostname that was added before does not always return 0. The
  hostname \<open>a\<close> is added to a new trie of the initial container, which stores its
  character at byte 65536, the start of the characters. Added again at once, or
  after 5439 more calls of \<open>create\<close>, \<open>add\<close> returns 0 and \<open>trie1\<close> stays as it
  was. After 5440 more calls of \<open>create\<close> the last root cell lies at the bytes
  65536 to 65547 and has set the character to zero: \<open>add\<close> of \<open>a\<close> then returns 1
  and \<open>trie1\<close> goes from 65548 to 65560.
\<close>

theorem add_again_after_creates_returns_one:
  "add_again_after_creates 0 = Some (1, 0, 268, 268)
   \<and> add_again_after_creates 5439 = Some (1, 0, 65536, 65536)
   \<and> add_again_after_creates 5440 = Some (1, 1, 65548, 65560)"
  by (simp add: add_again_after_creates_def run_simps rd32_def resized_buf_def buf_creates
        cong: weak_congs)

end
